theory Spec2Isabelle
  imports Main
begin

section \<open>Python strings\<close>

text \<open>
  A Python \<open>str\<close> is a sequence of Unicode code points, modelled as a list of naturals.
  \<open>str\<close> turns an ASCII literal of the source into such a list.
\<close>

type_synonym pystr = "nat list"

definition str :: "string \<Rightarrow> pystr" where
  "str cs = map of_char cs"

text \<open>
  The Unicode character database of the interpreter, consulted for the code points from
  128 on: the full lowercase mapping (up to three code points), the properties Cased and
  Case_Ignorable, and the white-space property. Below 128 the entries are written out in
  the definitions that follow.
\<close>

record unicode =
  to_lower_full :: "nat \<Rightarrow> nat list"
  is_cased :: "nat \<Rightarrow> bool"
  is_case_ignorable :: "nat \<Rightarrow> bool"
  is_whitespace :: "nat \<Rightarrow> bool"

definition lower_full :: "unicode \<Rightarrow> nat \<Rightarrow> nat list" where
  "lower_full u c =
     (if c < 128 then [if 65 \<le> c \<and> c \<le> 90 then c + 32 else c] else to_lower_full u c)"

definition cased :: "unicode \<Rightarrow> nat \<Rightarrow> bool" where
  "cased u c =
     (if c < 128 then (65 \<le> c \<and> c \<le> 90) \<or> (97 \<le> c \<and> c \<le> 122) else is_cased u c)"

definition case_ignorable :: "unicode \<Rightarrow> nat \<Rightarrow> bool" where
  "case_ignorable u c =
     (if c < 128 then c = 39 \<or> c = 46 \<or> c = 58 \<or> c = 94 \<or> c = 96
      else is_case_ignorable u c)"

text \<open>
  The capital sigma (931) is the one code point whose lowercase depends on its
  neighbours: it is in final position when a cased code point precedes it and none
  follows, case-ignorable code points being skipped on both sides. \<open>left\<close> is the text
  to the left, nearest code point first, \<open>right\<close> the text to the right.
\<close>

definition final_sigma :: "unicode \<Rightarrow> pystr \<Rightarrow> pystr \<Rightarrow> bool" where
  "final_sigma u left right =
     ((case dropWhile (case_ignorable u) left of [] \<Rightarrow> False | c # cs \<Rightarrow> cased u c) \<and>
      (case dropWhile (case_ignorable u) right of [] \<Rightarrow> True | c # cs \<Rightarrow> \<not> cased u c))"

fun lower_from :: "unicode \<Rightarrow> pystr \<Rightarrow> pystr \<Rightarrow> pystr" where
  "lower_from u left [] = []"
| "lower_from u left (c # right) =
     (if c = 931 then [if final_sigma u left right then 962 else 963] else lower_full u c)
       @ lower_from u (c # left) right"

text \<open>\<open>s.lower()\<close>\<close>

definition lower :: "unicode \<Rightarrow> pystr \<Rightarrow> pystr" where
  "lower u s = lower_from u [] s"

text \<open>\<open>c.isspace()\<close>: below 128 these are tab, line feed, vertical tab, form feed,
  carriage return, the four separators 28..31 and the blank.\<close>

definition isspace :: "unicode \<Rightarrow> nat \<Rightarrow> bool" where
  "isspace u c =
     (if c < 128 then (9 \<le> c \<and> c \<le> 13) \<or> (28 \<le> c \<and> c \<le> 32) else is_whitespace u c)"

text \<open>\<open>s.strip()\<close>\<close>

definition strip :: "unicode \<Rightarrow> pystr \<Rightarrow> pystr" where
  "strip u s = rev (dropWhile (isspace u) (rev (dropWhile (isspace u) s)))"

text \<open>\<open>s.startswith(p)\<close>\<close>

definition startswith :: "pystr \<Rightarrow> pystr \<Rightarrow> bool" where
  "startswith s p = (take (length p) s = p)"

text \<open>\<open>sub in s\<close>\<close>

fun str_in :: "pystr \<Rightarrow> pystr \<Rightarrow> bool" where
  "str_in sub [] = (sub = [])"
| "str_in sub (c # cs) = (startswith (c # cs) sub \<or> str_in sub cs)"

text \<open>
  \<open>s.replace(old, "")\<close>: every occurrence of \<open>old\<close> is deleted, scanning from the left and
  resuming behind each occurrence found. With an empty \<open>old\<close> Python inserts the (empty)
  replacement between the code points, which gives \<open>s\<close> back.
\<close>

function replace_del :: "pystr \<Rightarrow> pystr \<Rightarrow> pystr" where
  "replace_del old [] = []"
| "replace_del old (c # cs) =
     (if old \<noteq> [] \<and> startswith (c # cs) old
      then replace_del old (drop (length old) (c # cs))
      else c # replace_del old cs)"
  by pat_completeness auto
termination
  by (relation "measure (\<lambda>(old, s). length s)") auto

text \<open>\<open>str(n)\<close> for a non-negative integer.\<close>

function str_of_nat :: "nat \<Rightarrow> pystr" where
  "str_of_nat n = (if n < 10 then [48 + n] else str_of_nat (n div 10) @ [48 + n mod 10])"
  by pat_completeness auto
termination
  by (relation "measure id") auto

text \<open>A code point below 128 that is no capital letter: lowering leaves it as it is.\<close>

definition plain :: "nat \<Rightarrow> bool" where
  "plain c = (c < 128 \<and> \<not> (65 \<le> c \<and> c \<le> 90))"

section \<open>Configuration and host\<close>

text \<open>
  The configuration is the dictionary loaded from \<open>config.yaml\<close>; a key that may be missing
  is an option, and every \<open>cfg.get(key, default)\<close> of the source is a \<open>case\<close> on it.
\<close>

record config =
  apps :: "(pystr \<rightharpoonup> pystr) option"
  allow_shutdown :: "bool option"
  music_path :: "pystr option"
  wake_word :: "pystr option"
  language_preference :: "pystr option"
  gpt_system_prompt :: "pystr option"
  gpt_model :: "pystr option"
  gpt_max_tokens :: "nat option"

text \<open>
  What \<open>handle_command\<close> does to the machine, in the order it does it. The volume is a
  Python float; only the direction of the step is recorded.
\<close>

datatype os_action =
    Popen pystr
  | WebbrowserOpen pystr
  | GetMasterVolume
  | SetMasterVolumeUp
  | SetMasterVolumeDown
  | SetBrightness pystr
  | OsSystem pystr
  | OsStartfile pystr

text \<open>
  The host: whether the optional modules \<open>pycaw\<close> and \<open>screen_brightness_control\<close> were
  imported, the message of the exception \<open>sbc.set_brightness\<close> raises (if it does), and
  \<open>os.path.exists\<close> as \<open>handle_command\<close> sees it; Python's \<open>hash\<close> on strings (fixed for
  the life of the process), the platform's \<open>os.path.join\<close> and the interpreter's Unicode
  database. The calls that the
  source does not guard (\<open>Popen\<close>, \<open>webbrowser.open\<close>, the volume interface,
  \<open>os.system\<close>, \<open>os.startfile\<close>) are taken to return.
\<close>

record host =
  AudioUtilities :: bool
  sbc :: bool
  set_brightness_error :: "pystr option"
  path_exists :: "pystr \<Rightarrow> bool"
  py_hash :: "pystr \<Rightarrow> int"
  os_path_join :: "pystr \<Rightarrow> pystr \<Rightarrow> pystr"
  ucd :: unicode

definition apps_table :: "config \<Rightarrow> (pystr \<rightharpoonup> pystr)" where
  "apps_table cfg = (case apps cfg of None \<Rightarrow> Map.empty | Some t \<Rightarrow> t)"

section \<open>commands.py\<close>

definition nl :: pystr where
  "nl = [10]"

definition bubble_sort_code :: pystr where
  "bubble_sort_code =
     (str ''def bubble_sort(arr):'') @ nl @
     (str ''    n = len(arr)'') @ nl @
     (str ''    for i in range(n):'') @ nl @
     (str ''        for j in range(0, n-i-1):'') @ nl @
     (str ''            if arr[j] > arr[j+1]:'') @ nl @
     (str ''                arr[j], arr[j+1] = arr[j+1], arr[j]'') @ nl @
     (str ''    return arr'') @ nl @
     (str ''print(bubble_sort([64, 34, 25, 12, 22, 11, 90]))'')"

definition disabled_msg :: pystr where
  "disabled_msg = (str ''Shutdown and restart are disabled in config.'')"

text \<open>The rules of \<open>handle_command\<close> from the volume rule on, on the lowercased command.\<close>

definition shutdown_rule :: "config \<Rightarrow> pystr \<Rightarrow> (bool \<times> pystr \<times> os_action list) option" where
  "shutdown_rule cfg command =
     (if str_in (str ''shutdown'') command \<or> str_in (str ''restart'') command then
        (if \<not> (case allow_shutdown cfg of None \<Rightarrow> False | Some b \<Rightarrow> b) then
           Some (True, disabled_msg, [])
         else if \<not> str_in (str ''confirm'') command then
           Some (True, (str ''Say 'confirm shutdown' or 'confirm restart' to proceed.''), [])
         else if str_in (str ''shutdown'') command then
           Some (True, (str ''Shutting down system...''), [OsSystem (str ''shutdown /s /t 1'')])
         else
           Some (True, (str ''Restarting system...''), [OsSystem (str ''shutdown /r /t 1'')]))
      else None)"

definition music_rule :: "config \<Rightarrow> host \<Rightarrow> pystr \<Rightarrow> (bool \<times> pystr \<times> os_action list) option" where
  "music_rule cfg h command =
     (if str_in (str ''play music'') command then
        (let mp = (case music_path cfg of None \<Rightarrow> [] | Some p \<Rightarrow> p) in
         if mp \<noteq> [] \<and> path_exists h mp
         then Some (True, (str ''Playing music.''), [OsStartfile mp])
         else Some (True, (str ''Music path not configured.''), []))
      else None)"

definition write_rule :: "pystr \<Rightarrow> (bool \<times> pystr \<times> os_action list) option" where
  "write_rule command =
     (if startswith command (str ''crux write'') \<and> str_in (str ''bubble sort'') command
      then Some (True, bubble_sort_code, []) else None)"

text \<open>
  \<open>handle_command(command, cfg)\<close> returns the pair (handled, response); the third
  component lists the actions performed on the machine before returning. A rule that
  does not return falls through to the next one, carrying the actions it performed.
\<close>

definition handle_command :: "config \<Rightarrow> host \<Rightarrow> pystr \<Rightarrow> bool \<times> pystr \<times> os_action list" where
  "handle_command cfg h command0 =
     (let command = lower (ucd h) command0 in
      if startswith command (str ''open '') then
        (let app = replace_del (str ''open '') command;
             table = apps_table cfg in
         case table app of
           Some launch \<Rightarrow> (True, (str ''Opening '') @ app @ (str ''.''), [Popen launch])
         | None \<Rightarrow> (True, (str ''App '') @ app @ (str '' not found in config.''), []))
      else if startswith command (str ''search '') then
        (let query = replace_del (str ''search '') command in
         (True, (str ''Searching the web for '') @ query @ (str ''.''),
          [WebbrowserOpen ((str ''https://www.google.com/search?q='') @ query)]))
      else
        (let vol = str_in (str ''volume'') command \<and> AudioUtilities h;
             acts1 = (if vol then [GetMasterVolume] else []) in
         if vol \<and> str_in (str ''up'') command then
           (True, (str ''Volume increased.''), acts1 @ [SetMasterVolumeUp])
         else if vol \<and> str_in (str ''down'') command then
           (True, (str ''Volume decreased.''), acts1 @ [SetMasterVolumeDown])
         else
           (let bri = str_in (str ''brightness'') command \<and> sbc h in
            if bri \<and> str_in (str ''up'') command then
              (case set_brightness_error h of
                 None \<Rightarrow> (True, (str ''Brightness increased.''), acts1 @ [SetBrightness (str ''+10'')])
               | Some e \<Rightarrow> (True, (str ''Brightness control error: '') @ e, acts1 @ [SetBrightness (str ''+10'')]))
            else if bri \<and> str_in (str ''down'') command then
              (case set_brightness_error h of
                 None \<Rightarrow> (True, (str ''Brightness decreased.''), acts1 @ [SetBrightness (str ''-10'')])
               | Some e \<Rightarrow> (True, (str ''Brightness control error: '') @ e, acts1 @ [SetBrightness (str ''-10'')]))
            else
              (case shutdown_rule cfg command of
                 Some (b, r, a) \<Rightarrow> (b, r, acts1 @ a)
               | None \<Rightarrow>
                  (case music_rule cfg h command of
                     Some (b, r, a) \<Rightarrow> (b, r, acts1 @ a)
                   | None \<Rightarrow>
                      (case write_rule command of
                         Some (b, r, a) \<Rightarrow> (b, r, acts1 @ a)
                       | None \<Rightarrow> (False, (str ''Command not recognized.''), acts1)))))))"

section \<open>tts.py\<close>

text \<open>
  The fields of a \<open>TTSEngine\<close> that \<open>say\<close> reads or writes, as \<open>__init__\<close> leaves them:
  \<open>engine\<close> tells whether \<open>self.engine\<close> holds a pyttsx3 engine (it is \<open>None\<close>
  otherwise). The files of the cache directory and the calls made to the two synthesis
  libraries are part of the state, so that a theorem can speak about them.
\<close>

datatype tts_action =
    PickVoice pystr
  | EngineSay pystr
  | EngineInit
  | Gtts pystr pystr pystr
  | Playsound pystr

record tts_state =
  mode :: pystr
  engine :: bool
  lang_pref :: pystr
  lang_map :: "pystr \<rightharpoonup> pystr"
  tts_cache_dir :: pystr
  files :: "pystr set"
  tts_trace :: "tts_action list"

text \<open>
  What the libraries do during one call of \<open>say\<close>: how the first
  \<open>engine.say\<close>/\<open>runAndWait\<close> ends, how the block that re-initialises the engine and
  retries ends, and how \<open>gTTS(...).save\<close> ends. The hosted synthesis can raise before
  the cache file exists (the constructor refuses the text or the language code, or the
  file cannot be opened) or after \<open>save\<close> has opened it for writing (the request
  fails), which leaves the file behind, empty or cut short.
\<close>

datatype outcome = Returns | RaisesRuntimeError | RaisesOther

datatype retry_outcome = InitRaises | RetryRaises | RetryReturns

datatype gtts_outcome = Saved | RaisesBeforeOpen | RaisesAfterOpen

record tts_env =
  first_try :: outcome
  retry :: retry_outcome
  gtts :: gtts_outcome

text \<open>The calls of the hosted synthesis among the recorded ones.\<close>

fun is_gtts :: "tts_action \<Rightarrow> bool" where
  "is_gtts (Gtts t l p) = True"
| "is_gtts a = False"

definition add_trace :: "tts_state \<Rightarrow> tts_action list \<Rightarrow> tts_state" where
  "add_trace st acts = st\<lparr>tts_trace := tts_trace st @ acts\<rparr>"

text \<open>\<open>gtts_lang_code\<close>: \<open>self.gtts_lang_map.get(lang_pref, "en")\<close>\<close>

definition gtts_lang_code :: "tts_state \<Rightarrow> pystr \<Rightarrow> pystr" where
  "gtts_lang_code st lp = (case lang_map st lp of None \<Rightarrow> (str ''en'') | Some c \<Rightarrow> c)"

text \<open>The cache file of a text: \<open>join(tts_cache_dir, f"{lang_code}_{abs(hash(text))}.mp3")\<close>\<close>

definition mp3_path :: "host \<Rightarrow> tts_state \<Rightarrow> pystr \<Rightarrow> pystr" where
  "mp3_path h st text =
     os_path_join h (tts_cache_dir st)
       (gtts_lang_code st (lang_pref st) @ (str ''_'') @ str_of_nat (nat \<bar>py_hash h text\<bar>) @ (str ''.mp3''))"

text \<open>
  \<open>_say_online\<close>: synthesise into the cache unless the file is there, then start the
  playback thread. A synthesis that raises is logged and ends the call; the file it may
  have opened stays.
\<close>

definition say_online :: "host \<Rightarrow> tts_env \<Rightarrow> tts_state \<Rightarrow> pystr \<Rightarrow> tts_state" where
  "say_online h env st text =
     (let lang_code = gtts_lang_code st (lang_pref st);
          p = mp3_path h st text in
      if p \<notin> files st then
        (case gtts env of
           Saved \<Rightarrow>
             add_trace (st\<lparr>files := insert p (files st)\<rparr>) [Gtts text lang_code p, Playsound p]
         | RaisesBeforeOpen \<Rightarrow> add_trace st [Gtts text lang_code p]
         | RaisesAfterOpen \<Rightarrow>
             add_trace (st\<lparr>files := insert p (files st)\<rparr>) [Gtts text lang_code p])
      else add_trace st [Playsound p])"

text \<open>
  \<open>_say_offline\<close>: the voice is picked again when the configured language changed; a
  \<open>RuntimeError\<close> leads to one re-initialisation and one retry, any other failure and a
  failed retry lead to \<open>_say_online\<close>. No branch assigns \<open>self.mode\<close>.
\<close>

definition say_offline :: "host \<Rightarrow> config \<Rightarrow> tts_env \<Rightarrow> tts_state \<Rightarrow> pystr \<Rightarrow> tts_state" where
  "say_offline h cfg env st text =
     (let current_lang = (case language_preference cfg of None \<Rightarrow> lang_pref st | Some l \<Rightarrow> l);
          st1 = (if current_lang \<noteq> lang_pref st
                 then add_trace (st\<lparr>lang_pref := current_lang\<rparr>) [PickVoice current_lang]
                 else st);
          st2 = add_trace st1 [EngineSay text] in
      case first_try env of
        Returns \<Rightarrow> st2
      | RaisesRuntimeError \<Rightarrow>
          (case retry env of
             InitRaises \<Rightarrow> say_online h env (add_trace st2 [EngineInit]) text
           | RetryRaises \<Rightarrow>
               say_online h env
                 (add_trace (st2\<lparr>engine := True\<rparr>)
                    [EngineInit, PickVoice (lang_pref st2), EngineSay text]) text
           | RetryReturns \<Rightarrow>
               add_trace (st2\<lparr>engine := True\<rparr>)
                 [EngineInit, PickVoice (lang_pref st2), EngineSay text])
      | RaisesOther \<Rightarrow> say_online h env st2 text)"

text \<open>\<open>say\<close>\<close>

definition say :: "host \<Rightarrow> config \<Rightarrow> tts_env \<Rightarrow> tts_state \<Rightarrow> pystr \<Rightarrow> tts_state" where
  "say h cfg env st text =
     (if text = [] then st
      else if mode st = (str ''offline'') \<and> engine st then say_offline h cfg env st text
      else say_online h env st text)"

section \<open>assistant.py\<close>

datatype event = Log pystr | Status pystr | Transcript pystr pystr

datatype exn = Exception pystr

text \<open>
  An \<open>Assistant\<close>: the fields of the object, the events handed to \<open>event_cb\<close>, the lines
  appended to the audit log (role and text; the time stamp is left out) and the actions
  \<open>handle_command\<close> performed, each in order.
\<close>

record assistant =
  running :: bool
  listening :: bool
  gpt_enabled :: bool
  jsonl_path :: "pystr option"
  tts_engine :: tts_state
  events :: "event list"
  jsonl :: "(pystr \<times> pystr) list"
  os_actions :: "os_action list"

text \<open>
  The surroundings of one utterance: the host, the hosted model (the content of the first
  choice for a system prompt, model, token limit and user text, or the exception the call
  raises; the sampling temperature, a float, is left out), whether appending to the audit
  log succeeds, and what the speech libraries do.
\<close>

record env =
  the_host :: host
  chat_completion :: "pystr \<Rightarrow> pystr \<Rightarrow> nat \<Rightarrow> pystr \<Rightarrow> exn + pystr"
  jsonl_write_ok :: bool
  tts :: tts_env

text \<open>The Unicode database of the surroundings.\<close>

definition db :: "env \<Rightarrow> unicode" where
  "db ev = ucd (the_host ev)"

definition apology :: pystr where
  "apology = (str ''Sorry, I couldn'') @ [8217] @ (str ''t reach GPT right now.'')"

definition not_understood :: pystr where
  "not_understood = (str ''I don'') @ [8217] @ (str ''t understand. Please try again.'')"

text \<open>\<open>emit\<close>: the callback is called; what it raises is logged and dropped.\<close>

definition emit :: "assistant \<Rightarrow> event \<Rightarrow> assistant" where
  "emit a e = a\<lparr>events := events a @ [e]\<rparr>"

text \<open>\<open>log_jsonl\<close>\<close>

definition log_jsonl :: "env \<Rightarrow> assistant \<Rightarrow> pystr \<Rightarrow> pystr \<Rightarrow> assistant" where
  "log_jsonl ev a role text =
     (case jsonl_path a of
        None \<Rightarrow> a
      | Some p \<Rightarrow>
          (if p = [] then a
           else if jsonl_write_ok ev then a\<lparr>jsonl := jsonl a @ [(role, text)]\<rparr>
           else a))"

text \<open>\<open>query_gpt\<close>\<close>

definition query_gpt :: "config \<Rightarrow> env \<Rightarrow> pystr \<Rightarrow> exn + pystr" where
  "query_gpt cfg ev text =
     (let system_prompt = (case gpt_system_prompt cfg of None \<Rightarrow> (str ''You are Crux, a helpful assistant.'') | Some p \<Rightarrow> p);
          model = (case gpt_model cfg of None \<Rightarrow> (str ''gpt-5'') | Some m \<Rightarrow> m);
          max_tokens = (case gpt_max_tokens cfg of None \<Rightarrow> 500 | Some n \<Rightarrow> n) in
      case chat_completion ev system_prompt model max_tokens text of
        Inl e \<Rightarrow> Inl e
      | Inr content \<Rightarrow> Inr (strip (db ev) content))"

text \<open>\<open>route_command\<close>: the response, with the actions \<open>handle_command\<close> performed.\<close>

definition route_command :: "config \<Rightarrow> env \<Rightarrow> assistant \<Rightarrow> pystr \<Rightarrow> pystr \<times> os_action list" where
  "route_command cfg ev a text =
     (case handle_command cfg (the_host ev) text of
        (handled, resp, acts) \<Rightarrow>
          if handled then (resp, acts)
          else if gpt_enabled a then
            (case query_gpt cfg ev text of
               Inr answer \<Rightarrow> (answer, acts)
             | Inl e \<Rightarrow> (apology, acts))
          else (not_understood, acts))"

text \<open>\<open>speak\<close>\<close>

definition speak :: "config \<Rightarrow> env \<Rightarrow> assistant \<Rightarrow> pystr \<Rightarrow> assistant" where
  "speak cfg ev a text = a\<lparr>tts_engine := say (the_host ev) cfg (tts ev) (tts_engine a) text\<rparr>"

text \<open>\<open>handle_user_text\<close>\<close>

definition handle_user_text :: "config \<Rightarrow> env \<Rightarrow> assistant \<Rightarrow> pystr \<Rightarrow> assistant" where
  "handle_user_text cfg ev a text =
     (let a1 = emit a (Transcript (str ''user'') text);
          a2 = log_jsonl ev a1 (str ''user'') text;
          (response, acts) = route_command cfg ev a2 text;
          a3 = a2\<lparr>os_actions := os_actions a2 @ acts\<rparr> in
      if response \<noteq> [] then
        (let a4 = speak cfg ev a3 response;
             a5 = emit a4 (Transcript (str ''assistant'') response) in
         log_jsonl ev a5 (str ''assistant'') response)
      else a3)"

text \<open>The wake word of the configuration, lowercased: \<open>"crux"\<close> unless configured.\<close>

definition the_wake_word :: "unicode \<Rightarrow> config \<Rightarrow> pystr" where
  "the_wake_word u cfg = lower u (case wake_word cfg of None \<Rightarrow> (str ''crux'') | Some w \<Rightarrow> w)"

text \<open>\<open>on_stt_result\<close>\<close>

definition on_stt_result :: "config \<Rightarrow> env \<Rightarrow> assistant \<Rightarrow> pystr \<Rightarrow> assistant" where
  "on_stt_result cfg ev a text =
     (if text = [] then a
      else
        (let u = db ev;
             text_lower = lower u (strip u text);
             w = the_wake_word u cfg in
         if str_in w text_lower then
           (let a1 = emit a (Log ((str ''Heard wake word: '') @ w));
                text_lower2 = strip u (replace_del w text_lower) in
            if text_lower2 = [] then a1
            else handle_user_text cfg ev a1 text_lower2)
         else handle_user_text cfg ev a text_lower))"

section \<open>Sample configuration and surroundings\<close>

definition example_cfg :: config where
  "example_cfg =
     \<lparr>apps = Some [str ''notepad'' \<mapsto> str ''notepad.exe'',
                  [233, 99, 111, 108, 101] \<mapsto> str ''ecole.exe''], allow_shutdown = None, music_path = None,
      wake_word = None, language_preference = None,
      gpt_system_prompt = None, gpt_model = None, gpt_max_tokens = None\<rparr>"

text \<open>
  The database entries of the Latin-1 supplement (128 to 255), enough for the sample
  inputs; other code points are left alone.
\<close>

definition latin1 :: unicode where
  "latin1 =
     \<lparr>to_lower_full = (\<lambda>c. if 192 \<le> c \<and> c \<le> 222 \<and> c \<noteq> 215 then [c + 32] else [c]),
      is_cased = (\<lambda>c. c = 170 \<or> c = 181 \<or> c = 186 \<or>
                       (192 \<le> c \<and> c \<le> 255 \<and> c \<noteq> 215 \<and> c \<noteq> 247)),
      is_case_ignorable =
        (\<lambda>c. c = 168 \<or> c = 173 \<or> c = 175 \<or> c = 180 \<or> c = 183 \<or> c = 184),
      is_whitespace = (\<lambda>c. c = 133 \<or> c = 160)\<rparr>"

definition example_host :: host where
  "example_host =
     \<lparr>AudioUtilities = True, sbc = True, set_brightness_error = None,
      path_exists = (\<lambda>p. False), py_hash = (\<lambda>s. - int (length s)),
      os_path_join = (\<lambda>d f. d @ (str ''/'') @ f), ucd = latin1\<rparr>"

definition example_tts :: tts_state where
  "example_tts =
     \<lparr>mode = (str ''offline''), engine = True, lang_pref = (str ''en''),
      lang_map = [(str ''en'') \<mapsto> (str ''en''), (str ''ta'') \<mapsto> (str ''ta'')],
      tts_cache_dir = (str ''./runtime/tts_cache''), files = {}, tts_trace = []\<rparr>"

definition all_fine :: tts_env where
  "all_fine = \<lparr>first_try = Returns, retry = RetryReturns, gtts = Saved\<rparr>"

definition engine_broken :: tts_env where
  "engine_broken = \<lparr>first_try = RaisesRuntimeError, retry = RetryRaises, gtts = Saved\<rparr>"

definition network_down :: tts_env where
  "network_down = \<lparr>first_try = Returns, retry = RetryReturns, gtts = RaisesAfterOpen\<rparr>"

definition cache_unwritable :: tts_env where
  "cache_unwritable = \<lparr>first_try = Returns, retry = RetryReturns, gtts = RaisesBeforeOpen\<rparr>"

definition example_env :: env where
  "example_env =
     \<lparr>the_host = example_host,
      chat_completion = (\<lambda>p m n t. Inl (Exception (str ''connection refused''))),
      jsonl_write_ok = True, tts = all_fine\<rparr>"

definition example_assistant :: assistant where
  "example_assistant =
     \<lparr>running = True, listening = True, gpt_enabled = False,
      jsonl_path = Some (str ''runtime/logs/crux.jsonl''), tts_engine = example_tts,
      events = [], jsonl = [], os_actions = []\<rparr>"

section \<open>Facts about the string methods\<close>

lemma startswith_append: "startswith (p @ r) p"
  by (simp add: startswith_def)

lemma startswith_split: "startswith s p \<Longrightarrow> s = p @ drop (length p) s"
  unfolding startswith_def by (metis append_take_drop_id)

lemma startswith_iff: "startswith s p \<longleftrightarrow> (\<exists>r. s = p @ r)"
  using startswith_split startswith_append by metis

lemma str_in_iff: "str_in sub s \<longleftrightarrow> (\<exists>a b. s = a @ sub @ b)"
proof (induction s)
  case Nil
  show ?case by auto
next
  case (Cons c cs)
  show ?case
  proof
    assume "str_in sub (c # cs)"
    then consider "startswith (c # cs) sub" | "str_in sub cs" by auto
    then show "\<exists>a b. c # cs = a @ sub @ b"
    proof cases
      case 1
      then obtain r where "c # cs = sub @ r" using startswith_iff by blast
      then have "c # cs = [] @ sub @ r" by simp
      then show ?thesis by blast
    next
      case 2
      then obtain a b where "cs = a @ sub @ b" using Cons.IH by blast
      then have "c # cs = (c # a) @ sub @ b" by simp
      then show ?thesis by blast
    qed
  next
    assume "\<exists>a b. c # cs = a @ sub @ b"
    then obtain a b where ab: "c # cs = a @ sub @ b" by blast
    show "str_in sub (c # cs)"
    proof (cases a)
      case Nil
      with ab have "startswith (c # cs) sub" by (simp add: startswith_append)
      then show ?thesis by simp
    next
      case (Cons x a')
      with ab have "cs = a' @ sub @ b" by simp
      then have "str_in sub cs" using Cons.IH by blast
      then show ?thesis by simp
    qed
  qed
qed

lemma replace_del_absent: "\<not> str_in old s \<Longrightarrow> replace_del old s = s"
  by (induction s) auto

lemma replace_del_prefix:
  assumes "old \<noteq> []"
  shows "replace_del old (old @ r) = replace_del old r"
proof -
  obtain c cs where ccs: "old @ r = c # cs" using assms by (cases old) auto
  have "startswith (c # cs) old" using ccs startswith_append by metis
  moreover have "drop (length old) (c # cs) = r" using ccs by (metis append_eq_conv_conj)
  ultimately have "replace_del old (c # cs) = replace_del old r" using assms by simp
  then show ?thesis using ccs by simp
qed

lemma strip_prefix_once:
  assumes "startswith s p" and "p \<noteq> []" and "length p = n" and "\<not> str_in p (drop n s)"
  shows "replace_del p s = drop n s"
proof -
  have "s = p @ drop n s" using assms(1,3) startswith_split by blast
  then have "replace_del p s = replace_del p (drop n s)"
    using replace_del_prefix [OF assms(2)] by metis
  then show ?thesis using replace_del_absent [OF assms(4)] by simp
qed

lemma lower_from_plain:
  "list_all plain p \<Longrightarrow> lower_from u left0 (p @ r) = p @ lower_from u (rev p @ left0) r"
proof (induction p arbitrary: left0)
  case Nil
  show ?case by simp
next
  case (Cons c p)
  then have c: "plain c" and p: "list_all plain p" by simp_all
  have "c \<noteq> 931" using c by (simp add: plain_def)
  moreover have "lower_full u c = [c]" using c by (simp add: plain_def lower_full_def)
  ultimately show ?case using Cons.IH [OF p, of "c # left0"] by simp
qed

lemma lower_from_append:
  "\<exists>x. lower_from u left0 (a @ r) = x @ lower_from u (rev a @ left0) r"
proof (induction a arbitrary: left0)
  case Nil
  show ?case by simp
next
  case (Cons c a)
  obtain x where "lower_from u (c # left0) (a @ r) = x @ lower_from u (rev a @ c # left0) r"
    using Cons.IH [of "c # left0"] by blast
  then show ?case by simp
qed

lemma final_sigma_blocked:
  assumes "\<not> case_ignorable u b" and "\<not> cased u b"
  shows "final_sigma u (xs @ b # ys) right0 = final_sigma u xs right0"
proof (cases "dropWhile (case_ignorable u) xs")
  case Nil
  then have h: "dropWhile (case_ignorable u) (xs @ b # ys) = b # ys"
    using assms(1) by (simp add: dropWhile_append dropWhile_eq_Nil_conv)
  show ?thesis unfolding final_sigma_def h Nil using assms(2) by simp
next
  case (Cons c cs)
  then obtain x where "x \<in> set xs" and "\<not> case_ignorable u x"
    by (metis dropWhile_eq_Nil_conv list.distinct(1))
  then have h: "dropWhile (case_ignorable u) (xs @ b # ys) =
      dropWhile (case_ignorable u) xs @ b # ys"
    by (rule dropWhile_append1)
  show ?thesis unfolding final_sigma_def h Cons by simp
qed

lemma lower_from_blocked:
  assumes "\<not> case_ignorable u b" and "\<not> cased u b"
  shows "lower_from u (xs @ b # ys) r = lower_from u xs r"
proof (induction r arbitrary: xs)
  case Nil
  show ?case by simp
next
  case (Cons c r)
  have "lower_from u ((c # xs) @ b # ys) r = lower_from u (c # xs) r" by (rule Cons.IH)
  then show ?case using final_sigma_blocked [OF assms] by simp
qed

lemma startswith_lower:
  assumes "list_all plain p" and "startswith s p"
  shows "startswith (lower u s) p"
proof -
  obtain r where "s = p @ r" using assms(2) startswith_iff by blast
  then have "lower u s = p @ lower_from u (rev p @ []) r"
    unfolding lower_def using lower_from_plain [OF assms(1)] by blast
  then show ?thesis using startswith_append by metis
qed

lemma str_in_lower:
  assumes "list_all plain sub" and "str_in sub s"
  shows "str_in sub (lower u s)"
proof -
  obtain a b where s: "s = a @ sub @ b" using assms(2) str_in_iff by blast
  obtain x where "lower_from u [] (a @ sub @ b) = x @ lower_from u (rev a @ []) (sub @ b)"
    using lower_from_append by blast
  then have "lower u s = x @ sub @ lower_from u (rev sub @ rev a @ []) b"
    unfolding lower_def s using lower_from_plain [OF assms(1)] by simp
  then show ?thesis using str_in_iff by blast
qed

lemma lower_drop_prefix:
  assumes "list_all plain (p @ [32])" and "startswith s (p @ [32])" and "length p + 1 = n"
  shows "drop n (lower u s) = lower u (drop n s)"
proof -
  obtain r where s: "s = (p @ [32]) @ r" using assms(2) startswith_iff by blast
  have b1: "\<not> case_ignorable u 32" by (simp add: case_ignorable_def)
  have b2: "\<not> cased u 32" by (simp add: cased_def)
  have "lower u s = (p @ [32]) @ lower_from u (rev (p @ [32]) @ []) r"
    unfolding lower_def s using lower_from_plain [OF assms(1)] by blast
  also have "lower_from u (rev (p @ [32]) @ []) r = lower_from u ([] @ 32 # rev p) r" by simp
  also have "\<dots> = lower_from u [] r" using lower_from_blocked [OF b1 b2] by blast
  finally have "lower u s = (p @ [32]) @ lower u r" by (simp add: lower_def)
  moreover have len: "length (p @ [32]) = n" using assms(3) by simp
  moreover have "drop n s = r" using s len by (metis append_eq_conv_conj)
  ultimately show ?thesis by (metis append_eq_conv_conj)
qed

lemma str_open: "str ''open '' = [111, 112, 101, 110] @ [32]"
  by code_simp

lemma str_search: "str ''search '' = [115, 101, 97, 114, 99, 104] @ [32]"
  by code_simp

lemma plain_open: "list_all plain (str ''open '')"
  by code_simp

lemma plain_search: "list_all plain (str ''search '')"
  by code_simp

lemma plain_shutdown: "list_all plain (str ''shutdown'')"
  by code_simp

lemma plain_restart: "list_all plain (str ''restart'')"
  by code_simp

lemma search_not_open: "\<not> startswith (str ''search '' @ r) (str ''open '')"
  unfolding str_open str_search by (simp add: startswith_def)

section \<open>Facts about the speech engine\<close>

lemma mode_say_online: "mode (say_online h env st text) = mode st"
  by (cases "gtts env") (simp_all add: say_online_def Let_def add_trace_def)

lemma mode_say_offline: "mode (say_offline h cfg env st text) = mode st"
  by (simp add: say_offline_def Let_def add_trace_def mode_say_online
      split: outcome.splits retry_outcome.splits)

lemma mode_say: "mode (say h cfg env st text) = mode st"
  by (simp add: say_def mode_say_online mode_say_offline)

lemma engine_say_online: "engine (say_online h env st text) = engine st"
  by (cases "gtts env") (simp_all add: say_online_def Let_def add_trace_def)

lemma path_say_online: "mp3_path h (say_online h env st text) t = mp3_path h st t"
  by (cases "gtts env")
    (simp_all add: say_online_def Let_def add_trace_def mp3_path_def gtts_lang_code_def)

lemma code_say_online:
  "gtts_lang_code (say_online h env st text) (lang_pref (say_online h env st text)) =
   gtts_lang_code st (lang_pref st)"
  by (cases "gtts env") (simp_all add: say_online_def Let_def add_trace_def gtts_lang_code_def)

lemma last_say_online:
  "last (tts_trace (say_online h env st text)) =
     (if gtts env = Saved \<or> mp3_path h st text \<in> files st then Playsound (mp3_path h st text)
      else Gtts text (gtts_lang_code st (lang_pref st)) (mp3_path h st text))"
  by (cases "gtts env") (simp_all add: say_online_def Let_def add_trace_def)

lemma say_online_cached:
  assumes "gtts env1 = Saved \<or> gtts env1 = RaisesAfterOpen \<or> mp3_path h st text \<in> files st"
  shows "say_online h env2 (say_online h env1 st text) text =
           add_trace (say_online h env1 st text) [Playsound (mp3_path h st text)]"
proof -
  have "mp3_path h st text \<in> files (say_online h env1 st text)"
    using assms by (cases "gtts env1") (auto simp add: say_online_def Let_def add_trace_def)
  then show ?thesis
    using path_say_online [of h env1 st "text" "text"]
    by (simp add: say_online_def[of h env2] Let_def)
qed

lemma gtts_count_say_online:
  "length (filter is_gtts (tts_trace (say_online h env st text))) \<le>
   Suc (length (filter is_gtts (tts_trace st)))"
  by (cases "gtts env") (simp_all add: say_online_def Let_def add_trace_def)

lemma say_offline_exhausted:
  assumes "first_try env = RaisesRuntimeError" and "retry env \<noteq> RetryReturns"
  shows "\<exists>mid. say_offline h cfg env st text = say_online h env mid text \<and>
           files mid = files st \<and> (engine st \<longrightarrow> engine mid)"
proof (cases "retry env")
  case InitRaises
  then show ?thesis
    using assms(1)
    by (auto simp add: say_offline_def Let_def add_trace_def intro!: exI)
next
  case RetryRaises
  then show ?thesis
    using assms(1)
    by (auto simp add: say_offline_def Let_def add_trace_def intro!: exI)
next
  case RetryReturns
  then show ?thesis using assms(2) by simp
qed

section \<open>Built-in commands\<close>

text \<open>
  Claim C1, as the code has it. A command beginning with \<open>"open "\<close> is always handled.
  The key looked up in the table of applications is the rest of the command in lower
  case (\<open>str.lower\<close>, whatever the script), since the whole command is lowercased
  first: when that rest holds no further \<open>"open "\<close>, the response is
  \<open>"Opening <key>."\<close> if the key is in the table (and the application is launched), and
  \<open>"App <key> not found in config."\<close> if it is not.
\<close>

theorem handle_command_open:
  assumes "startswith command (str ''open '')"
  shows "fst (handle_command cfg h command) \<and>
     (\<not> str_in (str ''open '') (lower (ucd h) (drop 5 command)) \<longrightarrow>
      handle_command cfg h command =
        (case apps_table cfg (lower (ucd h) (drop 5 command)) of
           Some launch \<Rightarrow>
             (True, str ''Opening '' @ lower (ucd h) (drop 5 command) @ str ''.'', [Popen launch])
         | None \<Rightarrow>
             (True, str ''App '' @ lower (ucd h) (drop 5 command) @ str '' not found in config.'',
              [])))"
proof (intro conjI impI)
  have sw: "startswith (lower (ucd h) command) (str ''open '')"
    by (rule startswith_lower [OF plain_open assms])
  show "fst (handle_command cfg h command)"
    unfolding handle_command_def Let_def using sw by (simp split: option.splits)
  assume once: "\<not> str_in (str ''open '') (lower (ucd h) (drop 5 command))"
  have five: "length (str ''open '') = 5" by (simp add: str_def)
  have ne: "str ''open '' \<noteq> []" by (simp add: str_def)
  have rest: "drop 5 (lower (ucd h) command) = lower (ucd h) (drop 5 command)"
    using lower_drop_prefix [of "[111, 112, 101, 110]" command 5 "ucd h"]
      plain_open assms unfolding str_open by simp
  then have "\<not> str_in (str ''open '') (drop 5 (lower (ucd h) command))"
    using once by simp
  then have "replace_del (str ''open '') (lower (ucd h) command) = drop 5 (lower (ucd h) command)"
    by (rule strip_prefix_once [OF sw ne five])
  then have app: "replace_del (str ''open '') (lower (ucd h) command) =
      lower (ucd h) (drop 5 command)"
    using rest by simp
  show "handle_command cfg h command =
        (case apps_table cfg (lower (ucd h) (drop 5 command)) of
           Some launch \<Rightarrow>
             (True, str ''Opening '' @ lower (ucd h) (drop 5 command) @ str ''.'', [Popen launch])
         | None \<Rightarrow>
             (True, str ''App '' @ lower (ucd h) (drop 5 command) @ str '' not found in config.'',
              []))"
    unfolding handle_command_def Let_def using sw app by (simp split: option.splits)
qed

text \<open>
  The theorem at \<open>"open notepad"\<close> (in the table), at \<open>"open calc"\<close> (not in it) and at
  \<open>"open "\<close> followed by \<open>ECOLE\<close> with a capital E acute (201), whose lowercase (233 and
  \<open>cole\<close>) is a key of the table.
\<close>

theorem handle_command_open_witness:
  "startswith (str ''open notepad'') (str ''open '') \<and>
   \<not> str_in (str ''open '') (lower (ucd example_host) (drop 5 (str ''open notepad''))) \<and>
   handle_command example_cfg example_host (str ''open notepad'') =
     (True, str ''Opening notepad.'', [Popen (str ''notepad.exe'')]) \<and>
   startswith (str ''open calc'') (str ''open '') \<and>
   \<not> str_in (str ''open '') (lower (ucd example_host) (drop 5 (str ''open calc''))) \<and>
   handle_command example_cfg example_host (str ''open calc'') =
     (True, str ''App calc not found in config.'', []) \<and>
   startswith (str ''open '' @ [201, 67, 79, 76, 69]) (str ''open '') \<and>
   \<not> str_in (str ''open '')
       (lower (ucd example_host) (drop 5 (str ''open '' @ [201, 67, 79, 76, 69]))) \<and>
   handle_command example_cfg example_host (str ''open '' @ [201, 67, 79, 76, 69]) =
     (True, str ''Opening '' @ [233, 99, 111, 108, 101] @ str ''.'', [Popen (str ''ecole.exe'')])"
proof -
  have a1: "startswith (str ''open notepad'') (str ''open '')" by code_simp
  have a2: "\<not> str_in (str ''open '') (lower (ucd example_host) (drop 5 (str ''open notepad'')))"
    by code_simp
  have b1: "startswith (str ''open calc'') (str ''open '')" by code_simp
  have b2: "\<not> str_in (str ''open '') (lower (ucd example_host) (drop 5 (str ''open calc'')))"
    by code_simp
  have c1: "startswith (str ''open '' @ [201, 67, 79, 76, 69]) (str ''open '')" by code_simp
  have c2: "\<not> str_in (str ''open '')
       (lower (ucd example_host) (drop 5 (str ''open '' @ [201, 67, 79, 76, 69])))"
    by code_simp
  have l1: "lower (ucd example_host) (drop 5 (str ''open notepad'')) = str ''notepad''"
    by code_simp
  have l2: "lower (ucd example_host) (drop 5 (str ''open calc'')) = str ''calc''" by code_simp
  have l3: "lower (ucd example_host) (drop 5 (str ''open '' @ [201, 67, 79, 76, 69])) =
      [233, 99, 111, 108, 101]" by code_simp
  have t1: "apps_table example_cfg (str ''notepad'') = Some (str ''notepad.exe'')"
    by code_simp
  have t2: "apps_table example_cfg (str ''calc'') = None"
    by code_simp
  have t3: "apps_table example_cfg [233, 99, 111, 108, 101] = Some (str ''ecole.exe'')"
    by code_simp
  have s1: "str ''Opening '' @ str ''notepad'' @ str ''.'' = str ''Opening notepad.''"
    by code_simp
  have s2: "str ''App '' @ str ''calc'' @ str '' not found in config.'' =
      str ''App calc not found in config.''" by code_simp
  have r1: "handle_command example_cfg example_host (str ''open notepad'') =
     (True, str ''Opening notepad.'', [Popen (str ''notepad.exe'')])"
    using handle_command_open [OF a1, of example_cfg example_host] a2
    unfolding l1 t1 s1 by simp
  have r2: "handle_command example_cfg example_host (str ''open calc'') =
     (True, str ''App calc not found in config.'', [])"
    using handle_command_open [OF b1, of example_cfg example_host] b2
    unfolding l2 t2 s2 by simp
  have r3: "handle_command example_cfg example_host (str ''open '' @ [201, 67, 79, 76, 69]) =
     (True, str ''Opening '' @ [233, 99, 111, 108, 101] @ str ''.'', [Popen (str ''ecole.exe'')])"
    using handle_command_open [OF c1, of example_cfg example_host] c2
    unfolding l3 t3 by simp
  show ?thesis using a1 a2 b1 b2 c1 c2 r1 r2 r3 by blast
qed

text \<open>
  The key is not the rest of the command as typed. For \<open>"open Notepad"\<close> the rest,
  \<open>"Notepad"\<close>, is no key of the table, and still the response is
  \<open>"Opening notepad."\<close>; for \<open>"open open notepad"\<close> the rest is \<open>"open notepad"\<close> and the
  key looked up is \<open>"notepad"\<close>, because \<open>replace\<close> deletes every \<open>"open "\<close>.
\<close>

theorem handle_command_open_counterexample:
  "startswith (str ''open Notepad'') (str ''open '') \<and>
   drop 5 (str ''open Notepad'') = str ''Notepad'' \<and>
   apps_table example_cfg (str ''Notepad'') = None \<and>
   handle_command example_cfg example_host (str ''open Notepad'') =
     (True, str ''Opening notepad.'', [Popen (str ''notepad.exe'')]) \<and>
   startswith (str ''open open notepad'') (str ''open '') \<and>
   drop 5 (str ''open open notepad'') = str ''open notepad'' \<and>
   handle_command example_cfg example_host (str ''open open notepad'') =
     (True, str ''Opening notepad.'', [Popen (str ''notepad.exe'')])"
proof -
  have a: "startswith (str ''open Notepad'') (str ''open '')" by code_simp
  have a': "drop 5 (str ''open Notepad'') = str ''Notepad''" by code_simp
  have b: "apps_table example_cfg (str ''Notepad'') = None" by code_simp
  have c: "handle_command example_cfg example_host (str ''open Notepad'') =
     (True, str ''Opening notepad.'', [Popen (str ''notepad.exe'')])" by code_simp
  have d: "startswith (str ''open open notepad'') (str ''open '')" by code_simp
  have d': "drop 5 (str ''open open notepad'') = str ''open notepad''" by code_simp
  have e: "handle_command example_cfg example_host (str ''open open notepad'') =
     (True, str ''Opening notepad.'', [Popen (str ''notepad.exe'')])" by code_simp
  show ?thesis using a a' b c d d' e by blast
qed

text \<open>
  Claim C5, as the code has it. A command beginning with \<open>"search "\<close> is always handled.
  The query is the rest of the command in lower case (\<open>str.lower\<close>, whatever the
  script): when that rest holds no further \<open>"search "\<close>, the response is
  \<open>"Searching the web for <query>."\<close> and the browser is opened on that query.
\<close>

theorem handle_command_search:
  assumes "startswith command (str ''search '')"
  shows "fst (handle_command cfg h command) \<and>
     (\<not> str_in (str ''search '') (lower (ucd h) (drop 7 command)) \<longrightarrow>
      handle_command cfg h command =
        (True, str ''Searching the web for '' @ lower (ucd h) (drop 7 command) @ str ''.'',
         [WebbrowserOpen
            (str ''https://www.google.com/search?q='' @ lower (ucd h) (drop 7 command))]))"
proof (intro conjI impI)
  have sw: "startswith (lower (ucd h) command) (str ''search '')"
    by (rule startswith_lower [OF plain_search assms])
  then obtain r where r: "lower (ucd h) command = str ''search '' @ r"
    using startswith_iff by blast
  have no: "\<not> startswith (lower (ucd h) command) (str ''open '')"
    unfolding r by (rule search_not_open)
  show "fst (handle_command cfg h command)"
    unfolding handle_command_def Let_def using sw no by simp
  assume once: "\<not> str_in (str ''search '') (lower (ucd h) (drop 7 command))"
  have seven: "length (str ''search '') = 7" by (simp add: str_def)
  have ne: "str ''search '' \<noteq> []" by (simp add: str_def)
  have rest: "drop 7 (lower (ucd h) command) = lower (ucd h) (drop 7 command)"
    using lower_drop_prefix [of "[115, 101, 97, 114, 99, 104]" command 7 "ucd h"]
      plain_search assms unfolding str_search by simp
  then have "\<not> str_in (str ''search '') (drop 7 (lower (ucd h) command))"
    using once by simp
  then have "replace_del (str ''search '') (lower (ucd h) command) =
      drop 7 (lower (ucd h) command)"
    by (rule strip_prefix_once [OF sw ne seven])
  then have q: "replace_del (str ''search '') (lower (ucd h) command) =
      lower (ucd h) (drop 7 command)"
    using rest by simp
  show "handle_command cfg h command =
        (True, str ''Searching the web for '' @ lower (ucd h) (drop 7 command) @ str ''.'',
         [WebbrowserOpen
            (str ''https://www.google.com/search?q='' @ lower (ucd h) (drop 7 command))])"
    unfolding handle_command_def Let_def using sw no q by simp
qed

text \<open>
  The theorem at \<open>"search hello world"\<close> and at \<open>"search "\<close> followed by \<open>ECOLE\<close> with a
  capital E acute (201), which searches for its lowercase (233 and \<open>cole\<close>).
\<close>

theorem handle_command_search_witness:
  "startswith (str ''search hello world'') (str ''search '') \<and>
   \<not> str_in (str ''search '')
       (lower (ucd example_host) (drop 7 (str ''search hello world''))) \<and>
   handle_command example_cfg example_host (str ''search hello world'') =
     (True, str ''Searching the web for hello world.'',
      [WebbrowserOpen (str ''https://www.google.com/search?q=hello world'')]) \<and>
   startswith (str ''search '' @ [201, 67, 79, 76, 69]) (str ''search '') \<and>
   \<not> str_in (str ''search '')
       (lower (ucd example_host) (drop 7 (str ''search '' @ [201, 67, 79, 76, 69]))) \<and>
   handle_command example_cfg example_host (str ''search '' @ [201, 67, 79, 76, 69]) =
     (True, str ''Searching the web for '' @ [233, 99, 111, 108, 101] @ str ''.'',
      [WebbrowserOpen (str ''https://www.google.com/search?q='' @ [233, 99, 111, 108, 101])])"
proof -
  have a1: "startswith (str ''search hello world'') (str ''search '')" by code_simp
  have a2: "\<not> str_in (str ''search '')
       (lower (ucd example_host) (drop 7 (str ''search hello world'')))" by code_simp
  have c1: "startswith (str ''search '' @ [201, 67, 79, 76, 69]) (str ''search '')"
    by code_simp
  have c2: "\<not> str_in (str ''search '')
       (lower (ucd example_host) (drop 7 (str ''search '' @ [201, 67, 79, 76, 69])))"
    by code_simp
  have l1: "lower (ucd example_host) (drop 7 (str ''search hello world'')) = str ''hello world''"
    by code_simp
  have l3: "lower (ucd example_host) (drop 7 (str ''search '' @ [201, 67, 79, 76, 69])) =
      [233, 99, 111, 108, 101]" by code_simp
  have s1: "str ''Searching the web for '' @ str ''hello world'' @ str ''.'' =
      str ''Searching the web for hello world.''" by code_simp
  have s2: "str ''https://www.google.com/search?q='' @ str ''hello world'' =
      str ''https://www.google.com/search?q=hello world''" by code_simp
  have r1: "handle_command example_cfg example_host (str ''search hello world'') =
     (True, str ''Searching the web for hello world.'',
      [WebbrowserOpen (str ''https://www.google.com/search?q=hello world'')])"
    using handle_command_search [OF a1, of example_cfg example_host] a2
    unfolding l1 s1 s2 by simp
  have r3: "handle_command example_cfg example_host (str ''search '' @ [201, 67, 79, 76, 69]) =
     (True, str ''Searching the web for '' @ [233, 99, 111, 108, 101] @ str ''.'',
      [WebbrowserOpen (str ''https://www.google.com/search?q='' @ [233, 99, 111, 108, 101])])"
    using handle_command_search [OF c1, of example_cfg example_host] c2
    unfolding l3 by simp
  show ?thesis using a1 a2 c1 c2 r1 r3 by blast
qed

text \<open>
  The query is not the exact rest of the input: \<open>"search Hello"\<close> searches for
  \<open>"hello"\<close>, and \<open>"search research papers"\<close> searches for \<open>"repapers"\<close>, because
  \<open>replace\<close> deletes the \<open>"search "\<close> inside \<open>"research "\<close> too.
\<close>

theorem handle_command_search_counterexample:
  "startswith (str ''search Hello'') (str ''search '') \<and>
   drop 7 (str ''search Hello'') = str ''Hello'' \<and>
   handle_command example_cfg example_host (str ''search Hello'') =
     (True, str ''Searching the web for hello.'',
      [WebbrowserOpen (str ''https://www.google.com/search?q=hello'')]) \<and>
   startswith (str ''search research papers'') (str ''search '') \<and>
   drop 7 (str ''search research papers'') = str ''research papers'' \<and>
   handle_command example_cfg example_host (str ''search research papers'') =
     (True, str ''Searching the web for repapers.'',
      [WebbrowserOpen (str ''https://www.google.com/search?q=repapers'')])"
proof -
  have a: "startswith (str ''search Hello'') (str ''search '')" by code_simp
  have a': "drop 7 (str ''search Hello'') = str ''Hello''" by code_simp
  have c: "handle_command example_cfg example_host (str ''search Hello'') =
     (True, str ''Searching the web for hello.'',
      [WebbrowserOpen (str ''https://www.google.com/search?q=hello'')])" by code_simp
  have d: "startswith (str ''search research papers'') (str ''search '')" by code_simp
  have d': "drop 7 (str ''search research papers'') = str ''research papers''" by code_simp
  have e: "handle_command example_cfg example_host (str ''search research papers'') =
     (True, str ''Searching the web for repapers.'',
      [WebbrowserOpen (str ''https://www.google.com/search?q=repapers'')])" by code_simp
  show ?thesis using a a' c d d' e by blast
qed

text \<open>
  Claim C6, as the code has it. The rules are tried in a fixed order and the first that
  matches answers. A command containing \<open>"shutdown"\<close> or \<open>"restart"\<close> that none of the
  earlier rules takes (it does not begin with \<open>"open "\<close> or \<open>"search "\<close> once lowercased,
  the volume rule does not apply, the brightness rule does not answer) gets the fixed
  message that shutdown is disabled when \<open>allow_shutdown\<close> is false or missing, with or
  without \<open>"confirm"\<close>, and nothing is done to the machine.
\<close>

theorem handle_command_shutdown_disabled:
  assumes "str_in (str ''shutdown'') command \<or> str_in (str ''restart'') command"
    and "allow_shutdown cfg = None \<or> allow_shutdown cfg = Some False"
    and "\<not> startswith (lower (ucd h) command) (str ''open '')"
    and "\<not> startswith (lower (ucd h) command) (str ''search '')"
    and "\<not> (str_in (str ''volume'') (lower (ucd h) command) \<and> AudioUtilities h)"
    and "\<not> (str_in (str ''brightness'') (lower (ucd h) command) \<and> sbc h \<and>
            (str_in (str ''up'') (lower (ucd h) command) \<or>
             str_in (str ''down'') (lower (ucd h) command)))"
  shows "handle_command cfg h command = (True, disabled_msg, [])"
proof -
  have hit: "str_in (str ''shutdown'') (lower (ucd h) command) \<or>
      str_in (str ''restart'') (lower (ucd h) command)"
    using assms(1) str_in_lower [OF plain_shutdown] str_in_lower [OF plain_restart] by blast
  have off: "\<not> (case allow_shutdown cfg of None \<Rightarrow> False | Some b \<Rightarrow> b)"
    using assms(2) by auto
  have rule: "shutdown_rule cfg (lower (ucd h) command) = Some (True, disabled_msg, [])"
    unfolding shutdown_rule_def using hit off by simp
  show ?thesis
    unfolding handle_command_def Let_def using assms(3-6) rule by auto
qed

text \<open>
  The theorem at \<open>"confirm shutdown"\<close>.
\<close>

theorem handle_command_shutdown_disabled_witness:
  "(str_in (str ''shutdown'') (str ''confirm shutdown'') \<or>
    str_in (str ''restart'') (str ''confirm shutdown'')) \<and>
   (allow_shutdown example_cfg = None \<or> allow_shutdown example_cfg = Some False) \<and>
   \<not> startswith (lower (ucd example_host) (str ''confirm shutdown'')) (str ''open '') \<and>
   \<not> startswith (lower (ucd example_host) (str ''confirm shutdown'')) (str ''search '') \<and>
   \<not> (str_in (str ''volume'') (lower (ucd example_host) (str ''confirm shutdown'')) \<and>
      AudioUtilities example_host) \<and>
   \<not> (str_in (str ''brightness'') (lower (ucd example_host) (str ''confirm shutdown'')) \<and>
      sbc example_host \<and>
      (str_in (str ''up'') (lower (ucd example_host) (str ''confirm shutdown'')) \<or>
       str_in (str ''down'') (lower (ucd example_host) (str ''confirm shutdown'')))) \<and>
   handle_command example_cfg example_host (str ''confirm shutdown'') =
     (True, str ''Shutdown and restart are disabled in config.'', [])"
proof -
  have a1: "str_in (str ''shutdown'') (str ''confirm shutdown'') \<or>
      str_in (str ''restart'') (str ''confirm shutdown'')"
    by code_simp
  have a2: "allow_shutdown example_cfg = None \<or> allow_shutdown example_cfg = Some False"
    by (simp add: example_cfg_def)
  have a3: "\<not> startswith (lower (ucd example_host) (str ''confirm shutdown'')) (str ''open '')"
    by code_simp
  have a4: "\<not> startswith (lower (ucd example_host) (str ''confirm shutdown'')) (str ''search '')"
    by code_simp
  have a5: "\<not> (str_in (str ''volume'') (lower (ucd example_host) (str ''confirm shutdown'')) \<and>
      AudioUtilities example_host)"
    by code_simp
  have a6: "\<not> (str_in (str ''brightness'') (lower (ucd example_host) (str ''confirm shutdown'')) \<and>
      sbc example_host \<and>
      (str_in (str ''up'') (lower (ucd example_host) (str ''confirm shutdown'')) \<or>
       str_in (str ''down'') (lower (ucd example_host) (str ''confirm shutdown''))))"
    by code_simp
  have r: "handle_command example_cfg example_host (str ''confirm shutdown'') =
     (True, str ''Shutdown and restart are disabled in config.'', [])"
    using handle_command_shutdown_disabled [OF a1 a2 a3 a4 a5 a6]
    by (simp add: disabled_msg_def)
  show ?thesis using a1 a2 a3 a4 a5 a6 r by blast
qed

text \<open>
  An earlier rule wins: \<open>"search shutdown"\<close> contains \<open>"shutdown"\<close>, shutdown is
  disabled, and the answer is a web search, with the browser opened.
\<close>

theorem handle_command_shutdown_disabled_counterexample:
  "str_in (str ''shutdown'') (str ''search shutdown'') \<and>
   allow_shutdown example_cfg = None \<and>
   handle_command example_cfg example_host (str ''search shutdown'') =
     (True, str ''Searching the web for shutdown.'',
      [WebbrowserOpen (str ''https://www.google.com/search?q=shutdown'')])"
proof -
  have a: "str_in (str ''shutdown'') (str ''search shutdown'')" by code_simp
  have b: "allow_shutdown example_cfg = None" by (simp add: example_cfg_def)
  have c: "handle_command example_cfg example_host (str ''search shutdown'') =
     (True, str ''Searching the web for shutdown.'',
      [WebbrowserOpen (str ''https://www.google.com/search?q=shutdown'')])" by code_simp
  show ?thesis using a b c by blast
qed

section \<open>The speech-recognition callback\<close>

text \<open>
  Claim C10. Called with the empty string, \<open>on_stt_result\<close> returns at once: the
  assistant is unchanged, so no event was emitted, no line was appended to the audit
  log, no command was run and nothing was spoken.
\<close>

theorem on_stt_result_empty: "on_stt_result cfg ev a [] = a"
  by (simp add: on_stt_result_def)

text \<open>
  Claim C2, as the code has it. When a non-empty utterance contains the wake word and
  nothing is left after the wake word is deleted and the rest trimmed, exactly one event
  is emitted, the log event \<open>"Heard wake word: <wake word>"\<close>, which the code sends
  before it strips; nothing else changes: no transcript event, no line in the audit log,
  no command, no response, no speech.
\<close>

theorem on_stt_result_wake_word_alone:
  assumes "text \<noteq> []"
    and "str_in (the_wake_word (db ev) cfg) (lower (db ev) (strip (db ev) text))"
    and "strip (db ev)
           (replace_del (the_wake_word (db ev) cfg) (lower (db ev) (strip (db ev) text))) = []"
  shows "on_stt_result cfg ev a text =
           a\<lparr>events := events a @ [Log (str ''Heard wake word: '' @ the_wake_word (db ev) cfg)]\<rparr>"
  using assms by (simp add: on_stt_result_def Let_def emit_def)

text \<open>
  The theorem at the utterance \<open>Crux\<close> between two no-break spaces (160), which
  \<open>strip\<close> removes.
\<close>

theorem on_stt_result_wake_word_alone_witness:
  "[160] @ str ''Crux'' @ [160] \<noteq> [] \<and>
   str_in (the_wake_word (db example_env) example_cfg)
     (lower (db example_env)
        (strip (db example_env) ([160] @ str ''Crux'' @ [160]))) \<and>
   strip (db example_env)
     (replace_del (the_wake_word (db example_env) example_cfg)
        (lower (db example_env)
           (strip (db example_env) ([160] @ str ''Crux'' @ [160])))) = [] \<and>
   on_stt_result example_cfg example_env example_assistant ([160] @ str ''Crux'' @ [160]) =
     example_assistant
       \<lparr>events := events example_assistant @ [Log (str ''Heard wake word: crux'')]\<rparr>"
proof -
  have a1: "[160] @ str ''Crux'' @ [160] \<noteq> []" by simp
  have a2: "str_in (the_wake_word (db example_env) example_cfg)
     (lower (db example_env)
        (strip (db example_env) ([160] @ str ''Crux'' @ [160])))" by code_simp
  have a3: "strip (db example_env)
     (replace_del (the_wake_word (db example_env) example_cfg)
        (lower (db example_env)
           (strip (db example_env) ([160] @ str ''Crux'' @ [160])))) = []"
    by code_simp
  have w: "str ''Heard wake word: '' @ the_wake_word (db example_env) example_cfg =
      str ''Heard wake word: crux''" by code_simp
  have r: "on_stt_result example_cfg example_env example_assistant
      ([160] @ str ''Crux'' @ [160]) =
     example_assistant
       \<lparr>events := events example_assistant @ [Log (str ''Heard wake word: crux'')]\<rparr>"
    using on_stt_result_wake_word_alone [OF a1 a2 a3, where a = example_assistant]
    unfolding w .
  show ?thesis using a1 a2 a3 r by blast
qed

text \<open>
  The utterance \<open>"crux"\<close> leaves nothing after stripping, and one event was emitted.
\<close>

theorem on_stt_result_wake_word_alone_counterexample:
  "str_in (the_wake_word (db example_env) example_cfg)
     (lower (db example_env) (strip (db example_env) (str ''crux''))) \<and>
   strip (db example_env)
     (replace_del (the_wake_word (db example_env) example_cfg)
        (lower (db example_env)
           (strip (db example_env) (str ''crux'')))) = [] \<and>
   events example_assistant = [] \<and>
   events (on_stt_result example_cfg example_env example_assistant (str ''crux'')) =
     [Log (str ''Heard wake word: crux'')]"
proof -
  have a2: "str_in (the_wake_word (db example_env) example_cfg)
     (lower (db example_env) (strip (db example_env) (str ''crux'')))"
    by code_simp
  have a3: "strip (db example_env)
     (replace_del (the_wake_word (db example_env) example_cfg)
        (lower (db example_env)
           (strip (db example_env) (str ''crux'')))) = []"
    by code_simp
  have e0: "events example_assistant = []" by (simp add: example_assistant_def)
  have e: "events (on_stt_result example_cfg example_env example_assistant (str ''crux'')) =
     [Log (str ''Heard wake word: crux'')]" by code_simp
  show ?thesis using a2 a3 e0 e by blast
qed

text \<open>
  Claim C3, as the code has it. When a non-empty utterance contains the wake word, the
  text passed on is the trimmed, lowercased utterance with every occurrence of the wake
  word deleted (scanning from the left), trimmed again; it is handled after the log
  event, provided it is not empty.
\<close>

theorem on_stt_result_strips_wake_word:
  assumes "text \<noteq> []"
    and "str_in (the_wake_word (db ev) cfg) (lower (db ev) (strip (db ev) text))"
    and "strip (db ev)
           (replace_del (the_wake_word (db ev) cfg) (lower (db ev) (strip (db ev) text))) \<noteq> []"
  shows "on_stt_result cfg ev a text =
           handle_user_text cfg ev
             (emit a (Log (str ''Heard wake word: '' @ the_wake_word (db ev) cfg)))
             (strip (db ev)
                (replace_del (the_wake_word (db ev) cfg) (lower (db ev) (strip (db ev) text))))"
  using assms by (simp add: on_stt_result_def Let_def)

text \<open>
  The theorem at \<open>Crux\<close>, a blank, \<open>ECOLE\<close> with a capital E acute (201), a blank and
  \<open>crux\<close>: the text passed on is the lowercase word alone (233 and \<open>cole\<close>).
\<close>

theorem on_stt_result_strips_wake_word_witness:
  "str ''Crux '' @ [201, 67, 79, 76, 69] @ str '' crux'' \<noteq> [] \<and>
   str_in (the_wake_word (db example_env) example_cfg)
     (lower (db example_env)
        (strip (db example_env)
           (str ''Crux '' @ [201, 67, 79, 76, 69] @ str '' crux''))) \<and>
   strip (db example_env)
     (replace_del (the_wake_word (db example_env) example_cfg)
        (lower (db example_env)
           (strip (db example_env)
              (str ''Crux '' @ [201, 67, 79, 76, 69] @ str '' crux'')))) \<noteq> [] \<and>
   on_stt_result example_cfg example_env example_assistant
       (str ''Crux '' @ [201, 67, 79, 76, 69] @ str '' crux'') =
     handle_user_text example_cfg example_env
       (emit example_assistant (Log (str ''Heard wake word: crux''))) [233, 99, 111, 108, 101]"
proof -
  have a1: "str ''Crux '' @ [201, 67, 79, 76, 69] @ str '' crux'' \<noteq> []"
    by (simp add: str_def)
  have a2: "str_in (the_wake_word (db example_env) example_cfg)
     (lower (db example_env)
        (strip (db example_env)
           (str ''Crux '' @ [201, 67, 79, 76, 69] @ str '' crux'')))" by code_simp
  have s: "strip (db example_env)
     (replace_del (the_wake_word (db example_env) example_cfg)
        (lower (db example_env)
           (strip (db example_env)
              (str ''Crux '' @ [201, 67, 79, 76, 69] @ str '' crux'')))) =
      [233, 99, 111, 108, 101]" by code_simp
  have a3: "strip (db example_env)
     (replace_del (the_wake_word (db example_env) example_cfg)
        (lower (db example_env)
           (strip (db example_env)
              (str ''Crux '' @ [201, 67, 79, 76, 69] @ str '' crux'')))) \<noteq> []"
    unfolding s by simp
  have w: "str ''Heard wake word: '' @ the_wake_word (db example_env) example_cfg =
      str ''Heard wake word: crux''" by code_simp
  have r: "on_stt_result example_cfg example_env example_assistant
       (str ''Crux '' @ [201, 67, 79, 76, 69] @ str '' crux'') =
     handle_user_text example_cfg example_env
       (emit example_assistant (Log (str ''Heard wake word: crux''))) [233, 99, 111, 108, 101]"
    using on_stt_result_strips_wake_word [OF a1 a2 a3, where a = example_assistant]
    unfolding s unfolding w .
  show ?thesis using a1 a2 a3 r by blast
qed

text \<open>
  Deleting only the first occurrence would pass \<open>"tell crux"\<close> on; the transcript shows
  that \<open>"tell"\<close> was handled.
\<close>

theorem on_stt_result_strips_wake_word_counterexample:
  "str_in (the_wake_word (db example_env) example_cfg)
     (lower (db example_env)
        (strip (db example_env) (str ''crux tell crux''))) \<and>
   events (on_stt_result example_cfg example_env example_assistant (str ''crux tell crux'')) =
     [Log (str ''Heard wake word: crux''), Transcript (str ''user'') (str ''tell''),
      Transcript (str ''assistant'') not_understood] \<and>
   Transcript (str ''user'') (str ''tell crux'') \<notin>
     set (events (on_stt_result example_cfg example_env example_assistant
            (str ''crux tell crux'')))"
proof -
  have a2: "str_in (the_wake_word (db example_env) example_cfg)
     (lower (db example_env)
        (strip (db example_env) (str ''crux tell crux'')))" by code_simp
  have e: "events (on_stt_result example_cfg example_env example_assistant
        (str ''crux tell crux'')) =
     [Log (str ''Heard wake word: crux''), Transcript (str ''user'') (str ''tell''),
      Transcript (str ''assistant'') not_understood]" by code_simp
  have n: "Transcript (str ''user'') (str ''tell crux'') \<notin>
     set [Log (str ''Heard wake word: crux''), Transcript (str ''user'') (str ''tell''),
      Transcript (str ''assistant'') not_understood]" by code_simp
  show ?thesis using a2 e n by simp
qed

text \<open>
  Claim C9. When the built-in commands do not handle the text, the language model is
  enabled and the hosted call raises, \<open>route_command\<close> returns the fixed apology; the
  exception goes no further.
\<close>

theorem route_command_gpt_error:
  assumes "\<not> fst (handle_command cfg (the_host ev) text)"
    and "gpt_enabled a"
    and "query_gpt cfg ev text = Inl e"
  shows "route_command cfg ev a text =
           (apology, snd (snd (handle_command cfg (the_host ev) text)))"
proof -
  obtain handled resp acts where hc: "handle_command cfg (the_host ev) text = (handled, resp, acts)"
    by (cases "handle_command cfg (the_host ev) text") auto
  then have "\<not> handled" using assms(1) by simp
  then show ?thesis using hc assms(2,3) by (simp add: route_command_def)
qed

text \<open>
  The theorem at \<open>"tell me a joke"\<close>, with a hosted call that is refused.
\<close>

theorem route_command_gpt_error_witness:
  "\<not> fst (handle_command example_cfg (the_host example_env) (str ''tell me a joke'')) \<and>
   gpt_enabled (example_assistant\<lparr>gpt_enabled := True\<rparr>) \<and>
   query_gpt example_cfg example_env (str ''tell me a joke'') =
     Inl (Exception (str ''connection refused'')) \<and>
   route_command example_cfg example_env (example_assistant\<lparr>gpt_enabled := True\<rparr>)
       (str ''tell me a joke'') = (apology, [])"
proof -
  have a1: "\<not> fst (handle_command example_cfg (the_host example_env) (str ''tell me a joke''))"
    by code_simp
  have a2: "gpt_enabled (example_assistant\<lparr>gpt_enabled := True\<rparr>)" by simp
  have a3: "query_gpt example_cfg example_env (str ''tell me a joke'') =
      Inl (Exception (str ''connection refused''))"
    by (simp add: query_gpt_def example_env_def)
  have acts: "snd (snd (handle_command example_cfg (the_host example_env)
      (str ''tell me a joke''))) = []"
    by code_simp
  have "route_command example_cfg example_env (example_assistant\<lparr>gpt_enabled := True\<rparr>)
       (str ''tell me a joke'') = (apology, [])"
    using route_command_gpt_error [OF a1 a2 a3] unfolding acts .
  then show ?thesis using a1 a2 a3 by blast
qed

section \<open>The speech engine\<close>

text \<open>
  Claim C8, as the code has it. \<open>say\<close> does nothing on the empty text: the engine
  state is unchanged, so nothing was synthesised, written to the cache or played.
\<close>

theorem say_empty: "say h cfg env st [] = st"
  by (simp add: say_def)

text \<open>
  A text of two blanks is not empty for \<open>say\<close>: the offline engine is asked to speak
  it.
\<close>

theorem say_blank_counterexample:
  "list_all (isspace (ucd example_host)) (str ''  '') \<and>
   tts_trace (say example_host example_cfg all_fine example_tts (str ''  '')) =
     [EngineSay (str ''  '')] \<and>
   tts_trace example_tts = []"
proof -
  have a: "list_all (isspace (ucd example_host)) (str ''  '')" by code_simp
  have b: "tts_trace (say example_host example_cfg all_fine example_tts (str ''  '')) =
      [EngineSay (str ''  '')]"
    by code_simp
  have c: "tts_trace example_tts = []" by (simp add: example_tts_def)
  show ?thesis using a b c by blast
qed

text \<open>
  Claim C4, as the code has it. No call of \<open>say\<close> changes the mode, so it never goes
  from online back to offline, and neither from offline to online. When the engine is
  offline and the first attempt raises a \<open>RuntimeError\<close> and the retry after
  re-initialisation does not succeed, this utterance goes through the online path (it
  ends with the playback of the cache file, or with the hosted synthesis that failed),
  the engine is still there, and the next non-empty \<open>say\<close> takes the offline path
  again.
\<close>

theorem say_failover_this_call_only:
  "mode (say h cfg env st text) = mode st \<and>
   (mode st = str ''offline'' \<and> engine st \<and> text \<noteq> [] \<and>
    first_try env = RaisesRuntimeError \<and> retry env \<noteq> RetryReturns \<longrightarrow>
      engine (say h cfg env st text) \<and>
      last (tts_trace (say h cfg env st text)) =
        (if gtts env = Saved \<or> mp3_path h (say h cfg env st text) text \<in> files st
         then Playsound (mp3_path h (say h cfg env st text) text)
         else Gtts text
                (gtts_lang_code (say h cfg env st text) (lang_pref (say h cfg env st text)))
                (mp3_path h (say h cfg env st text) text)) \<and>
      (\<forall>env2 text2. text2 \<noteq> [] \<longrightarrow>
         say h cfg env2 (say h cfg env st text) text2 =
         say_offline h cfg env2 (say h cfg env st text) text2))"
proof (intro conjI impI)
  show "mode (say h cfg env st text) = mode st" by (rule mode_say)
next
  assume hyp: "mode st = str ''offline'' \<and> engine st \<and> text \<noteq> [] \<and>
    first_try env = RaisesRuntimeError \<and> retry env \<noteq> RetryReturns"
  then have off: "say h cfg env st text = say_offline h cfg env st text"
    by (simp add: say_def)
  obtain mid where mid: "say_offline h cfg env st text = say_online h env mid text"
    and fm: "files mid = files st" and em: "engine mid"
    using say_offline_exhausted [of env h cfg st "text"] hyp by blast
  show e: "engine (say h cfg env st text)"
    unfolding off mid using em by (simp add: engine_say_online)
  show "last (tts_trace (say h cfg env st text)) =
        (if gtts env = Saved \<or> mp3_path h (say h cfg env st text) text \<in> files st
         then Playsound (mp3_path h (say h cfg env st text) text)
         else Gtts text
                (gtts_lang_code (say h cfg env st text) (lang_pref (say h cfg env st text)))
                (mp3_path h (say h cfg env st text) text))"
    unfolding off mid
    by (simp only: last_say_online path_say_online code_say_online fm)
  show "\<forall>env2 text2. text2 \<noteq> [] \<longrightarrow>
         say h cfg env2 (say h cfg env st text) text2 =
         say_offline h cfg env2 (say h cfg env st text) text2"
  proof (intro allI impI)
    fix env2 text2
    assume "text2 \<noteq> ([]::pystr)"
    moreover have "mode (say h cfg env st text) = str ''offline''"
      using hyp by (simp add: mode_say)
    ultimately show "say h cfg env2 (say h cfg env st text) text2 =
         say_offline h cfg env2 (say h cfg env st text) text2"
      using e by (simp add: say_def[of h cfg env2])
  qed
qed

text \<open>
  The theorem at an engine that fails twice on \<open>"hello"\<close>.
\<close>

theorem say_failover_this_call_only_witness:
  "mode example_tts = str ''offline'' \<and> engine example_tts \<and> str ''hello'' \<noteq> [] \<and>
   first_try engine_broken = RaisesRuntimeError \<and> retry engine_broken \<noteq> RetryReturns \<and>
   mode (say example_host example_cfg engine_broken example_tts (str ''hello'')) =
     str ''offline'' \<and>
   engine (say example_host example_cfg engine_broken example_tts (str ''hello'')) \<and>
   last (tts_trace (say example_host example_cfg engine_broken example_tts (str ''hello''))) =
     Playsound (str ''./runtime/tts_cache/en_5.mp3'') \<and>
   say example_host example_cfg all_fine
       (say example_host example_cfg engine_broken example_tts (str ''hello'')) (str ''again'') =
     say_offline example_host example_cfg all_fine
       (say example_host example_cfg engine_broken example_tts (str ''hello'')) (str ''again'')"
proof -
  let ?st = "say example_host example_cfg engine_broken example_tts (str ''hello'')"
  have a: "mode example_tts = str ''offline'' \<and> engine example_tts \<and> str ''hello'' \<noteq> [] \<and>
     first_try engine_broken = RaisesRuntimeError \<and> retry engine_broken \<noteq> RetryReturns"
    by (simp add: example_tts_def engine_broken_def str_def)
  have p: "mp3_path example_host ?st (str ''hello'') = str ''./runtime/tts_cache/en_5.mp3''"
    by code_simp
  have g: "gtts engine_broken = Saved" by (simp add: engine_broken_def)
  have ne: "str ''again'' \<noteq> []" by (simp add: str_def)
  note inst = say_failover_this_call_only
    [of example_host example_cfg engine_broken example_tts "str ''hello''"]
  have m: "mode ?st = str ''offline''" using inst a by simp
  have r: "engine ?st \<and>
      last (tts_trace ?st) =
        (if gtts engine_broken = Saved \<or>
            mp3_path example_host ?st (str ''hello'') \<in> files example_tts
         then Playsound (mp3_path example_host ?st (str ''hello''))
         else Gtts (str ''hello'') (gtts_lang_code ?st (lang_pref ?st))
                (mp3_path example_host ?st (str ''hello''))) \<and>
      (\<forall>env2 text2. text2 \<noteq> [] \<longrightarrow>
         say example_host example_cfg env2 ?st text2 =
         say_offline example_host example_cfg env2 ?st text2)"
    using inst a by blast
  then have l: "last (tts_trace ?st) = Playsound (str ''./runtime/tts_cache/en_5.mp3'')"
    using g by (simp only: p if_True simp_thms)
  have n: "say example_host example_cfg all_fine ?st (str ''again'') =
     say_offline example_host example_cfg all_fine ?st (str ''again'')"
    using r ne by blast
  show ?thesis using a m r l n by blast
qed

text \<open>
  After such a failure the mode is still offline, and the next call asks the offline
  engine first.
\<close>

theorem say_failover_counterexample:
  "mode example_tts = str ''offline'' \<and> engine example_tts \<and>
   first_try engine_broken = RaisesRuntimeError \<and> retry engine_broken = RetryRaises \<and>
   mode (say example_host example_cfg engine_broken example_tts (str ''hello'')) =
     str ''offline'' \<and>
   tts_trace (say example_host example_cfg all_fine
      (say example_host example_cfg engine_broken example_tts (str ''hello'')) (str ''again'')) =
     [EngineSay (str ''hello''), EngineInit, PickVoice (str ''en''), EngineSay (str ''hello''),
      Gtts (str ''hello'') (str ''en'') (str ''./runtime/tts_cache/en_5.mp3''),
      Playsound (str ''./runtime/tts_cache/en_5.mp3''), EngineSay (str ''again'')]"
proof -
  have a0: "mode example_tts = str ''offline'' \<and> engine example_tts \<and>
   first_try engine_broken = RaisesRuntimeError \<and> retry engine_broken = RetryRaises"
    by (simp add: example_tts_def engine_broken_def)
  have a: "mode (say example_host example_cfg engine_broken example_tts (str ''hello'')) =
      str ''offline''"
    by code_simp
  have b: "tts_trace (say example_host example_cfg all_fine
      (say example_host example_cfg engine_broken example_tts (str ''hello'')) (str ''again'')) =
     [EngineSay (str ''hello''), EngineInit, PickVoice (str ''en''), EngineSay (str ''hello''),
      Gtts (str ''hello'') (str ''en'') (str ''./runtime/tts_cache/en_5.mp3''),
      Playsound (str ''./runtime/tts_cache/en_5.mp3''), EngineSay (str ''again'')]"
    by code_simp
  show ?thesis using a0 a b by blast
qed

text \<open>
  Claim C7, as the code has it. When \<open>say\<close> takes the online path for a non-empty text
  and the hosted synthesis of the first call got as far as the cache file (it returned,
  or it raised after \<open>save\<close> had opened the file) or the file was there already, a second
  call with the same text only starts the playback of the cache file: no synthesis, no
  write; over the two calls the hosted synthesis is called at most once.
\<close>

theorem say_twice_online:
  assumes "text \<noteq> []"
    and "\<not> (mode st = str ''offline'' \<and> engine st)"
    and "gtts env1 = Saved \<or> gtts env1 = RaisesAfterOpen \<or> mp3_path h st text \<in> files st"
  shows "say h cfg env2 (say h cfg env1 st text) text =
           add_trace (say h cfg env1 st text) [Playsound (mp3_path h st text)] \<and>
         length (filter is_gtts (tts_trace (say h cfg env2 (say h cfg env1 st text) text))) \<le>
           Suc (length (filter is_gtts (tts_trace st)))"
proof -
  have one: "say h cfg env1 st text = say_online h env1 st text"
    using assms(1,2) by (auto simp add: say_def)
  have "\<not> (mode (say_online h env1 st text) = str ''offline'' \<and>
      engine (say_online h env1 st text))"
    using assms(2) by (simp add: mode_say_online engine_say_online)
  then have two: "say h cfg env2 (say_online h env1 st text) text =
      say_online h env2 (say_online h env1 st text) text"
    using assms(1) by (auto simp add: say_def)
  have eq: "say h cfg env2 (say h cfg env1 st text) text =
      add_trace (say h cfg env1 st text) [Playsound (mp3_path h st text)]"
    unfolding one two by (rule say_online_cached[OF assms(3)])
  have "length (filter is_gtts
          (tts_trace (add_trace (say_online h env1 st text) [Playsound (mp3_path h st text)]))) =
        length (filter is_gtts (tts_trace (say_online h env1 st text)))"
    by (simp add: add_trace_def)
  then show ?thesis
    using eq one gtts_count_say_online [of h env1 st "text"] by simp
qed

text \<open>
  The theorem at \<open>"hi"\<close>, twice: after a synthesis that returned, and after one whose
  request failed and left the file behind; each time the second call only plays.
\<close>

theorem say_twice_online_witness:
  "str ''hi'' \<noteq> [] \<and>
   \<not> (mode (example_tts\<lparr>mode := str ''online''\<rparr>) = str ''offline'' \<and>
      engine (example_tts\<lparr>mode := str ''online''\<rparr>)) \<and>
   (gtts all_fine = Saved \<or> gtts all_fine = RaisesAfterOpen \<or>
    mp3_path example_host (example_tts\<lparr>mode := str ''online''\<rparr>) (str ''hi'')
      \<in> files (example_tts\<lparr>mode := str ''online''\<rparr>)) \<and>
   tts_trace (say example_host example_cfg network_down
      (say example_host example_cfg all_fine (example_tts\<lparr>mode := str ''online''\<rparr>) (str ''hi''))
      (str ''hi'')) =
     [Gtts (str ''hi'') (str ''en'') (str ''./runtime/tts_cache/en_2.mp3''),
      Playsound (str ''./runtime/tts_cache/en_2.mp3''),
      Playsound (str ''./runtime/tts_cache/en_2.mp3'')] \<and>
   (gtts network_down = Saved \<or> gtts network_down = RaisesAfterOpen \<or>
    mp3_path example_host (example_tts\<lparr>mode := str ''online''\<rparr>) (str ''hi'')
      \<in> files (example_tts\<lparr>mode := str ''online''\<rparr>)) \<and>
   tts_trace (say example_host example_cfg all_fine
      (say example_host example_cfg network_down (example_tts\<lparr>mode := str ''online''\<rparr>)
         (str ''hi''))
      (str ''hi'')) =
     [Gtts (str ''hi'') (str ''en'') (str ''./runtime/tts_cache/en_2.mp3''),
      Playsound (str ''./runtime/tts_cache/en_2.mp3'')]"
proof -
  let ?st = "example_tts\<lparr>mode := str ''online''\<rparr>"
  have a1: "str ''hi'' \<noteq> []" by (simp add: str_def)
  have a2: "\<not> (mode ?st = str ''offline'' \<and> engine ?st)" by code_simp
  have a3: "gtts all_fine = Saved \<or> gtts all_fine = RaisesAfterOpen \<or>
      mp3_path example_host ?st (str ''hi'') \<in> files ?st"
    by (simp add: all_fine_def)
  have b3: "gtts network_down = Saved \<or> gtts network_down = RaisesAfterOpen \<or>
      mp3_path example_host ?st (str ''hi'') \<in> files ?st"
    by (simp add: network_down_def)
  have p: "mp3_path example_host ?st (str ''hi'') = str ''./runtime/tts_cache/en_2.mp3''"
    by code_simp
  have t: "tts_trace (say example_host example_cfg all_fine ?st (str ''hi'')) =
     [Gtts (str ''hi'') (str ''en'') (str ''./runtime/tts_cache/en_2.mp3''),
      Playsound (str ''./runtime/tts_cache/en_2.mp3'')]" by code_simp
  have t': "tts_trace (say example_host example_cfg network_down ?st (str ''hi'')) =
     [Gtts (str ''hi'') (str ''en'') (str ''./runtime/tts_cache/en_2.mp3'')]" by code_simp
  have "tts_trace (say example_host example_cfg network_down
      (say example_host example_cfg all_fine ?st (str ''hi'')) (str ''hi'')) =
      tts_trace (say example_host example_cfg all_fine ?st (str ''hi'')) @
        [Playsound (str ''./runtime/tts_cache/en_2.mp3'')]"
    using say_twice_online [OF a1 a2 a3, of example_cfg network_down]
    by (simp add: p add_trace_def)
  then have r1: "tts_trace (say example_host example_cfg network_down
      (say example_host example_cfg all_fine ?st (str ''hi'')) (str ''hi'')) =
     [Gtts (str ''hi'') (str ''en'') (str ''./runtime/tts_cache/en_2.mp3''),
      Playsound (str ''./runtime/tts_cache/en_2.mp3''),
      Playsound (str ''./runtime/tts_cache/en_2.mp3'')]"
    unfolding t by simp
  have "tts_trace (say example_host example_cfg all_fine
      (say example_host example_cfg network_down ?st (str ''hi'')) (str ''hi'')) =
      tts_trace (say example_host example_cfg network_down ?st (str ''hi'')) @
        [Playsound (str ''./runtime/tts_cache/en_2.mp3'')]"
    using say_twice_online [OF a1 a2 b3, of example_cfg all_fine]
    by (simp add: p add_trace_def)
  then have r2: "tts_trace (say example_host example_cfg all_fine
      (say example_host example_cfg network_down ?st (str ''hi'')) (str ''hi'')) =
     [Gtts (str ''hi'') (str ''en'') (str ''./runtime/tts_cache/en_2.mp3''),
      Playsound (str ''./runtime/tts_cache/en_2.mp3'')]"
    unfolding t' by simp
  show ?thesis using a1 a2 a3 b3 r1 r2 by blast
qed

text \<open>
  When the synthesis of the first call raises before the cache file exists (here the
  file cannot be opened), nothing is cached and the second call synthesises again.
\<close>

theorem say_twice_online_counterexample:
  "mode (example_tts\<lparr>mode := str ''online''\<rparr>) = str ''online'' \<and>
   gtts cache_unwritable = RaisesBeforeOpen \<and>
   tts_trace (say example_host example_cfg all_fine
      (say example_host example_cfg cache_unwritable (example_tts\<lparr>mode := str ''online''\<rparr>)
         (str ''hi''))
      (str ''hi'')) =
     [Gtts (str ''hi'') (str ''en'') (str ''./runtime/tts_cache/en_2.mp3''),
      Gtts (str ''hi'') (str ''en'') (str ''./runtime/tts_cache/en_2.mp3''),
      Playsound (str ''./runtime/tts_cache/en_2.mp3'')]"
proof -
  have a: "mode (example_tts\<lparr>mode := str ''online''\<rparr>) = str ''online''" by simp
  have b: "gtts cache_unwritable = RaisesBeforeOpen" by (simp add: cache_unwritable_def)
  have c: "tts_trace (say example_host example_cfg all_fine
      (say example_host example_cfg cache_unwritable (example_tts\<lparr>mode := str ''online''\<rparr>)
         (str ''hi''))
      (str ''hi'')) =
     [Gtts (str ''hi'') (str ''en'') (str ''./runtime/tts_cache/en_2.mp3''),
      Gtts (str ''hi'') (str ''en'') (str ''./runtime/tts_cache/en_2.mp3''),
      Playsound (str ''./runtime/tts_cache/en_2.mp3'')]" by code_simp
  show ?thesis using a b c by blast
qed

end
